theory Spec2Isabelle
  imports Main "HOL-Library.Word"
begin

unbundle bit_operations_syntax

section \<open>FF OSD: the sync state machine and the frame orchestrator of main.c\<close>

text \<open>
  The development embeds the display-sync part of \<^verbatim>\<open>src/main.c\<close>: the two sync interrupt
  handlers \<^verbatim>\<open>IRQ_vsync\<close> and \<^verbatim>\<open>IRQ_csync\<close>, their helpers \<^verbatim>\<open>slave_arr_update\<close> and
  \<^verbatim>\<open>set_polarity\<close>, and the three parts of the main loop that touch the same variables: the
  bounded wait, the sync-loss check and the height computation done after each frame.
  The three per-line handlers (\<^verbatim>\<open>IRQ_osd_pre_start\<close>, \<^verbatim>\<open>IRQ_osd_pre_end\<close>, \<^verbatim>\<open>IRQ_osd_end\<close>)
  and the rasteriser \<^verbatim>\<open>render_line\<close> neither read nor write \<^verbatim>\<open>hline\<close>, \<^verbatim>\<open>frame\<close> or
  \<^verbatim>\<open>display_height\<close> and are left out, as are the pixel buffer and the log messages.

  The globals and the peripheral registers the handlers write are the fields of one record,
  and every handler is a function from state to state. What a handler reads from the
  hardware (the level of the sync pin, the value of \<^verbatim>\<open>time_now()\<close>) is an argument.
\<close>

subsection \<open>Declarations that main.c takes from its headers\<close>

text \<open>
  \<^verbatim>\<open>hline\<close> and \<^verbatim>\<open>frame\<close> are C \<^verbatim>\<open>int\<close>s. They are modelled as unbounded integers: a handler
  leaves \<^verbatim>\<open>hline\<close> between -1 and 131069 whatever it was before (lemma
  \<open>IRQ_csync_hline_range\<close> below), so \<^verbatim>\<open>++hline\<close> never comes near \<^verbatim>\<open>INT_MAX\<close>.
\<close>

definition HLINE_EOF :: int where "HLINE_EOF = -1"
definition HLINE_VBL :: int where "HLINE_VBL = 0"
definition HLINE_SOF :: int where "HLINE_SOF = 1"

definition MAX_DISPLAY_HEIGHT :: nat where "MAX_DISPLAY_HEIGHT = 52"

definition pin_csync :: nat where "pin_csync = 8"
definition pin_vsync :: nat where "pin_vsync = 14"

text \<open>
  Modelled from the spec: \<^verbatim>\<open>struct config\<close> is declared outside main.c. The spec gives the
  polarity two values (active-high, active-low), so it is a \<open>bool\<close>, \<open>True\<close> for active-high
  (the nonzero value of \<^verbatim>\<open>if (config.polarity)\<close>); the offsets are unsigned 16-bit counts,
  which C promotes to \<^verbatim>\<open>int\<close> in every expression of main.c.
\<close>

record config_t =
  polarity :: bool
  h_off :: "16 word"
  v_off :: "16 word"

text \<open>
  Modelled from the spec: \<^verbatim>\<open>struct display\<close> is declared outside main.c. Only the fields
  the height computation and the commit of a frame read are kept; the text itself is used by
  the rasteriser alone.
\<close>

record display =
  rows :: int
  cols :: int
  heights :: "8 word"
  on :: bool

text \<open>
  Modelled from the spec: \<^verbatim>\<open>time_t\<close>, \<^verbatim>\<open>time_diff\<close>, \<^verbatim>\<open>time_us\<close> and \<^verbatim>\<open>time_ms\<close> are declared
  outside main.c. The spec measures a pulse as the time elapsed between two timestamps and
  compares it with 10 microseconds and 100 milliseconds. A timestamp is a count of timer
  ticks; the number of ticks in a microsecond is not in main.c and is the parameter \<open>mhz\<close> of
  every function that converts a duration.
\<close>

type_synonym time_t = int

definition time_diff :: "time_t \<Rightarrow> time_t \<Rightarrow> int" where
  "time_diff x y = y - x"

definition time_us :: "int \<Rightarrow> int \<Rightarrow> int" where
  "time_us mhz x = x * mhz"

definition time_ms :: "int \<Rightarrow> int \<Rightarrow> int" where
  "time_ms mhz x = x * 1000 * mhz"

text \<open>
  The register bit macros are those of the STM32F10x timer and EXTI blocks; \<^verbatim>\<open>m(x)\<close> is the
  mask with bit \<open>x\<close> set. The system clock runs at 72 ticks per microsecond: main.c counts
  8 ticks per pixel at an SPI rate of 9 MHz.
\<close>

definition m :: "nat \<Rightarrow> 32 word" where
  "m bitnr = push_bit bitnr 1"

definition TIM_SMCR_MSM :: "16 word" where "TIM_SMCR_MSM = push_bit 7 1"
definition TIM_SMCR_TS :: "16 word \<Rightarrow> 16 word" where "TIM_SMCR_TS x = push_bit 4 x"
definition TIM_SMCR_SMS :: "16 word \<Rightarrow> 16 word" where "TIM_SMCR_SMS x = x"
definition TIM_CCER_CC1P :: "16 word" where "TIM_CCER_CC1P = push_bit 1 1"

definition sysclk_us :: "32 word \<Rightarrow> 32 word" where
  "sysclk_us x = x * 72"

subsection \<open>The state\<close>

text \<open>
  \<^verbatim>\<open>csync_p\<close> is the static \<^verbatim>\<open>p\<close> of \<^verbatim>\<open>IRQ_csync\<close>. The timers of this chip are 16 bits wide,
  so a value stored in \<^verbatim>\<open>arr\<close> or \<^verbatim>\<open>ccr1\<close> is cut to 16 bits. \<^verbatim>\<open>dma_display_cmar\<close> is kept as
  a byte offset from the start of \<^verbatim>\<open>display_dat\<close>. \<^verbatim>\<open>primask\<close> is the global interrupt mask
  that \<^verbatim>\<open>IRQ_global_disable\<close> sets.
\<close>

record osd =
  hline :: int
  frame :: int
  display_height :: "16 word"
  config :: config_t
  csync_p :: time_t
  tim1_smcr :: "16 word"
  tim1_ccer :: "16 word"
  tim1_ccr3 :: "16 word"
  tim1_ccr4 :: "16 word"
  tim2_arr :: "16 word"
  tim2_ccr1 :: "16 word"
  tim3_arr :: "16 word"
  exti_pr :: "32 word"
  exti_ftsr :: "32 word"
  exti_rtsr :: "32 word"
  dma_display_cmar :: nat
  primask :: bool

subsection \<open>slave\_arr\_update and set\_polarity\<close>

definition slave_arr_update :: "osd \<Rightarrow> osd" where
  "slave_arr_update s =
     (let hstart = (ucast (h_off (config s)) * 20 :: 32 word) in
      s\<lparr>tim2_arr := ucast (hstart - 1),
        tim3_arr := ucast (hstart - 49),
        tim2_ccr1 := ucast (hstart - sysclk_us 1)\<rparr>)"

definition set_polarity :: "osd \<Rightarrow> osd" where
  "set_polarity s =
     (if polarity (config s) then
        s\<lparr>exti_ftsr := exti_ftsr s AND NOT (m pin_csync OR m pin_vsync),
          exti_rtsr := exti_rtsr s OR (m pin_csync OR m pin_vsync),
          tim1_ccer := tim1_ccer s OR TIM_CCER_CC1P\<rparr>
      else
        s\<lparr>exti_rtsr := exti_rtsr s AND NOT (m pin_csync OR m pin_vsync),
          exti_ftsr := exti_ftsr s OR (m pin_csync OR m pin_vsync),
          tim1_ccer := tim1_ccer s AND NOT TIM_CCER_CC1P\<rparr>)"

subsection \<open>The sync interrupt handlers\<close>

definition IRQ_vsync :: "osd \<Rightarrow> osd" where
  "IRQ_vsync s = s\<lparr>exti_pr := m pin_vsync, tim1_smcr := 0, hline := HLINE_VBL\<rparr>"

text \<open>The statements under the label \<^verbatim>\<open>eof\<close>, reached by a \<^verbatim>\<open>goto\<close> and by falling in.\<close>

definition eof :: "osd \<Rightarrow> osd" where
  "eof s = s\<lparr>tim1_smcr := 0, hline := HLINE_EOF, frame := frame s + 1\<rparr>"

text \<open>
  \<open>pin\<close> is what \<^verbatim>\<open>gpio_read_pin(gpio_csync, pin_csync)\<close> returns (\<open>True\<close> for a high level)
  and \<open>t\<close> what \<^verbatim>\<open>time_now()\<close> returns.
\<close>

definition IRQ_csync :: "int \<Rightarrow> bool \<Rightarrow> time_t \<Rightarrow> osd \<Rightarrow> osd" where
  "IRQ_csync mhz pin t s0 =
     (let s = s0\<lparr>exti_pr := m pin_csync\<rparr> in
      if hline s \<le> 0 then
        (let s = s\<lparr>exti_ftsr := exti_ftsr s OR (m pin_csync OR m pin_vsync)\<rparr>;
             s = s\<lparr>exti_rtsr := exti_rtsr s OR (m pin_csync OR m pin_vsync)\<rparr> in
         if pin = polarity (config s) then s\<lparr>csync_p := t\<rparr>
         else if time_diff (csync_p s) t > time_us mhz 10 then s\<lparr>hline := HLINE_VBL\<rparr>
         else if hline s = HLINE_VBL then
           (if display_height s = 0 then eof s
            else set_polarity (slave_arr_update (s\<lparr>hline := HLINE_SOF\<rparr>)))
         else s)
      else
        (let s = s\<lparr>hline := hline s + 1\<rparr> in
         if hline s < uint (v_off (config s)) then s
         else if hline s \<ge> uint (v_off (config s)) + uint (display_height s) then eof s
         else
           (let s = s\<lparr>tim1_smcr := TIM_SMCR_MSM OR TIM_SMCR_TS 5 OR TIM_SMCR_SMS 4\<rparr> in
            if hline s = uint (v_off (config s)) then s\<lparr>dma_display_cmar := 0\<rparr> else s)))"

subsection \<open>What reaches the handlers\<close>

text \<open>
  An event is one run of a handler, or the forced reset of the main loop (defined below).
  \<open>run\<close> delivers a list of events in order. A sync pulse seen while \<open>hline \<le> 0\<close> raises
  the interrupt on both of its edges (the handler has armed both): first with the pin at the
  active level, then, \<open>w\<close> ticks later, with the pin back at the idle level. Once a frame has
  started \<^verbatim>\<open>set_polarity\<close> arms one edge only, and a pulse is a single \<open>Csync\<close> event.
\<close>

datatype event = Csync bool time_t | Vsync | Sync_lost

fun is_csync :: "event \<Rightarrow> bool" where
  "is_csync (Csync pin t) = True"
| "is_csync Vsync = False"
| "is_csync Sync_lost = False"

subsection \<open>The main loop\<close>

text \<open>
  Modelled from the spec: \<^verbatim>\<open>IRQ_global_disable\<close> and \<^verbatim>\<open>IRQ_global_enable\<close> are declared outside
  main.c; the spec calls the section between them interrupt-masked. They set and clear
  \<open>primask\<close>.
\<close>

definition IRQ_global_disable :: "osd \<Rightarrow> osd" where
  "IRQ_global_disable s = s\<lparr>primask := True\<rparr>"

definition IRQ_global_enable :: "osd \<Rightarrow> osd" where
  "IRQ_global_enable s = s\<lparr>primask := False\<rparr>"

text \<open>
  The four statements of the forced reset, one state transformer each, in program order;
  \<open>forced_reset\<close> runs them all.
\<close>

definition forced_reset_steps :: "(osd \<Rightarrow> osd) list" where
  "forced_reset_steps =
     [IRQ_global_disable,
      (\<lambda>s. s\<lparr>tim1_smcr := 0\<rparr>),
      (\<lambda>s. s\<lparr>hline := HLINE_EOF\<rparr>),
      IRQ_global_enable]"

definition forced_reset :: "osd \<Rightarrow> osd" where
  "forced_reset s = fold (\<lambda>stmt. stmt) forced_reset_steps s"

text \<open>The state in which statement \<open>k\<close> of the forced reset (counted from 0) executes.\<close>

definition forced_reset_upto :: "nat \<Rightarrow> osd \<Rightarrow> osd" where
  "forced_reset_upto k s = fold (\<lambda>stmt. stmt) (take k forced_reset_steps) s"

text \<open>The locals of \<^verbatim>\<open>main\<close> that the sync-loss check uses.\<close>

record main_locals =
  frame_time :: time_t
  lost_sync :: bool

text \<open>
  The sync-loss check of one iteration of the main loop. \<open>now1\<close> and \<open>now2\<close> are the values
  of its two calls of \<^verbatim>\<open>time_now()\<close>. The log message is left out.
\<close>

definition sync_check :: "int \<Rightarrow> time_t \<Rightarrow> time_t \<Rightarrow> main_locals \<Rightarrow> osd \<Rightarrow> main_locals \<times> osd" where
  "sync_check mhz now1 now2 l s =
     (if time_diff (frame_time l) now1 > time_ms mhz 100 then
        (l\<lparr>lost_sync := True, frame_time := now2\<rparr>, forced_reset s)
      else (l, s))"

text \<open>
  The bounded wait at the top of the loop. \<open>obs i\<close> is the value of \<^verbatim>\<open>hline\<close> read in
  iteration \<open>i\<close> (interrupts change it during the delays). The result is the value of \<open>i\<close>
  when the loop is left, which is the number of calls of \<^verbatim>\<open>delay_ms(1)\<close>.
\<close>

definition wait_break :: "config_t \<Rightarrow> int \<Rightarrow> bool" where
  "wait_break cfg h = (h < uint (v_off cfg) - 3)"

function display_wait :: "config_t \<Rightarrow> (nat \<Rightarrow> int) \<Rightarrow> nat \<Rightarrow> nat" where
  "display_wait cfg obs i =
     (if i < 5 then
        (if wait_break cfg (obs i) then i else display_wait cfg obs (i + 1))
      else i)"
  by pat_completeness auto
termination
  by (relation "measure (\<lambda>(cfg, obs, i). 5 - i)") auto

text \<open>
  The height of the next frame. \<^verbatim>\<open>height\<close> is a \<^verbatim>\<open>uint16_t\<close>; the loop variable and \<^verbatim>\<open>rows\<close>
  are \<^verbatim>\<open>int\<close>s. \<^verbatim>\<open>heights & (1<<i)\<close> tests bit \<open>i\<close> of an 8-bit mask, so it is zero from
  bit 8 on (C defines the shift up to \<open>i = 30\<close>).
\<close>

function height_loop :: "display \<Rightarrow> int \<Rightarrow> 16 word \<Rightarrow> 16 word" where
  "height_loop d i height =
     (if i < rows d then
        height_loop d (i + 1) (if bit (heights d) (nat i) then height + 8 else height)
      else height)"
  by pat_completeness auto
termination
  by (relation "measure (\<lambda>(d, i, height). nat (rows d - i))") auto

declare height_loop.simps [simp del]

definition next_height :: "display \<Rightarrow> 16 word" where
  "next_height d =
     min (height_loop d 0 (word_of_int (rows d * 10 + 2))) (word_of_nat MAX_DISPLAY_HEIGHT)"

text \<open>
  What the main loop commits once the buffer is rendered (the calls of \<^verbatim>\<open>render_line\<close>
  fill the pixel buffer only).
\<close>

definition frame_commit :: "display \<Rightarrow> osd \<Rightarrow> osd" where
  "frame_commit d s =
     (let height = next_height d in
      if on d then
        (let s = s\<lparr>tim1_ccr3 := word_of_int (8 * 8 * cols d + 80)\<rparr>;
             s = s\<lparr>tim1_ccr4 := tim1_ccr3 s - ucast (sysclk_us 1)\<rparr> in
         s\<lparr>display_height := height\<rparr>)
      else s\<lparr>display_height := 0\<rparr>)"

text \<open>
  The block \<^verbatim>\<open>if (frame) { ... }\<close>; \<open>cur_display\<close> is the display the loop has chosen and
  \<open>now\<close> the value of \<^verbatim>\<open>time_now()\<close>.
\<close>

definition frame_done :: "time_t \<Rightarrow> display \<Rightarrow> main_locals \<Rightarrow> osd \<Rightarrow> main_locals \<times> osd" where
  "frame_done now cur_display l s =
     (if frame s \<noteq> 0 then
        (l\<lparr>lost_sync := False, frame_time := now\<rparr>, frame_commit cur_display (s\<lparr>frame := 0\<rparr>))
      else (l, s))"

subsection \<open>Runs\<close>

fun deliver :: "int \<Rightarrow> event \<Rightarrow> osd \<Rightarrow> osd" where
  "deliver mhz (Csync pin t) s = IRQ_csync mhz pin t s"
| "deliver mhz Vsync s = IRQ_vsync s"
| "deliver mhz Sync_lost s = forced_reset s"

primrec run :: "int \<Rightarrow> event list \<Rightarrow> osd \<Rightarrow> osd" where
  "run mhz [] s = s"
| "run mhz (e # es) s = run mhz es (deliver mhz e s)"

definition sync_pulse :: "int \<Rightarrow> time_t \<Rightarrow> int \<Rightarrow> osd \<Rightarrow> osd" where
  "sync_pulse mhz t w s =
     IRQ_csync mhz (\<not> polarity (config s)) (t + w) (IRQ_csync mhz (polarity (config s)) t s)"

text \<open>
  The number of edges between the start of a frame and its end, as the handler counts
  them: the line counter starts at 1 and the frame ends on the edge that takes it to
  \<open>v_off + display_height\<close> or beyond.
\<close>

definition frame_edges :: "osd \<Rightarrow> nat" where
  "frame_edges s = max 1 (unat (v_off (config s)) + unat (display_height s) - 1)"

text \<open>
  The height the spec asks for: ten lines for each row and two more, and eight more for
  each double-height row among the first \<open>rows\<close> rows. \<open>doubles d i\<close> counts the
  double-height rows from row \<open>i\<close> on.
\<close>

definition doubles :: "display \<Rightarrow> nat \<Rightarrow> nat" where
  "doubles d i = length (filter (bit (heights d)) [i..<nat (rows d)])"

definition requested_height :: "display \<Rightarrow> nat" where
  "requested_height d = nat (rows d) * 10 + 2 + 8 * doubles d 0"

text \<open>Concrete states for the examples: every variable and register zero.\<close>

definition osd_zero :: "config_t \<Rightarrow> osd" where
  "osd_zero cfg =
     \<lparr>hline = 0, frame = 0, display_height = 0, config = cfg, csync_p = 0,
      tim1_smcr = 0, tim1_ccer = 0, tim1_ccr3 = 0, tim1_ccr4 = 0,
      tim2_arr = 0, tim2_ccr1 = 0, tim3_arr = 0,
      exti_pr = 0, exti_ftsr = 0, exti_rtsr = 0,
      dma_display_cmar = 0, primask = False\<rparr>"

definition scenario_config :: config_t where
  "scenario_config = \<lparr>polarity = False, h_off = 2, v_off = 3\<rparr>"

definition eof_state :: osd where
  "eof_state = (osd_zero scenario_config)\<lparr>hline := -1, display_height := 10\<rparr>"

definition sof_state :: osd where
  "sof_state = (osd_zero scenario_config)\<lparr>hline := 1, display_height := 10\<rparr>"

definition main_start :: main_locals where
  "main_start = \<lparr>frame_time = 0, lost_sync = False\<rparr>"

definition tall_display :: display where
  "tall_display = \<lparr>rows = 4, cols = 32, heights = 15, on = True\<rparr>"

definition tall_display_off :: display where
  "tall_display_off = \<lparr>rows = 4, cols = 32, heights = 15, on = False\<rparr>"

definition start_pulses :: "event list" where
  "start_pulses = [Csync False 0, Csync True 135, Csync False 576, Csync True 612]"

definition idle_pulses :: "event list" where
  "idle_pulses = [Csync False 0, Csync True 135, Csync False 576, Csync True 612, Vsync,
     Csync False 1152, Csync True 1188, Sync_lost, Csync False 1728, Csync True 1764]"

section \<open>Properties\<close>

subsection \<open>One edge\<close>

lemmas csync_defs = IRQ_csync_def Let_def eof_def set_polarity_def slave_arr_update_def
  HLINE_EOF_def HLINE_VBL_def HLINE_SOF_def

lemma before_box_not_past:
  "h < uint (v :: 16 word) \<Longrightarrow> \<not> uint v + uint (d :: 16 word) \<le> h"
  using uint_ge_0 [of d] by linarith

lemma config_IRQ_csync: "config (IRQ_csync mhz pin t s) = config s"
  by (simp add: csync_defs)

lemma display_height_IRQ_csync: "display_height (IRQ_csync mhz pin t s) = display_height s"
  by (simp add: csync_defs)

lemma hline_csync_active:
  "0 < hline s \<Longrightarrow> hline (IRQ_csync mhz pin t s) =
     (if uint (v_off (config s)) + uint (display_height s) \<le> hline s + 1 then -1 else hline s + 1)"
  by (auto simp add: csync_defs before_box_not_past)

lemma frame_csync_active:
  "0 < hline s \<Longrightarrow> frame (IRQ_csync mhz pin t s) =
     (if uint (v_off (config s)) + uint (display_height s) \<le> hline s + 1 then frame s + 1 else frame s)"
  by (auto simp add: csync_defs before_box_not_past)

text \<open>The line counter stays far below the largest C \<^verbatim>\<open>int\<close>.\<close>

lemma IRQ_csync_hline_range:
  "-1 \<le> hline s \<Longrightarrow> -1 \<le> hline (IRQ_csync mhz pin t s) \<and> hline (IRQ_csync mhz pin t s) \<le> 131069"
  using uint_lt2p [of "v_off (config s)"] uint_lt2p [of "display_height s"]
  by (auto simp add: csync_defs)

lemma csync_pulse_start:
  "hline s \<le> 0 \<Longrightarrow> pin = polarity (config s) \<Longrightarrow>
   hline (IRQ_csync mhz pin t s) = hline s \<and> frame (IRQ_csync mhz pin t s) = frame s \<and>
   csync_p (IRQ_csync mhz pin t s) = t"
  by (simp add: csync_defs)

lemma csync_long_end:
  "hline s \<le> 0 \<Longrightarrow> pin \<noteq> polarity (config s) \<Longrightarrow> time_us mhz 10 < time_diff (csync_p s) t \<Longrightarrow>
   hline (IRQ_csync mhz pin t s) = 0 \<and> frame (IRQ_csync mhz pin t s) = frame s \<and>
   csync_p (IRQ_csync mhz pin t s) = csync_p s"
  by (simp add: csync_defs)

lemma csync_short_end_sof:
  "hline s = 0 \<Longrightarrow> pin \<noteq> polarity (config s) \<Longrightarrow> \<not> time_us mhz 10 < time_diff (csync_p s) t \<Longrightarrow>
   display_height s \<noteq> 0 \<Longrightarrow>
   hline (IRQ_csync mhz pin t s) = 1 \<and> frame (IRQ_csync mhz pin t s) = frame s"
  by (simp add: csync_defs)

lemma hline_csync_height0:
  "hline s \<le> 0 \<Longrightarrow> display_height s = 0 \<Longrightarrow> hline (IRQ_csync mhz pin t s) \<le> 0"
  by (simp add: csync_defs)

lemma csync_last_line:
  "0 < hline s \<Longrightarrow> uint (v_off (config s)) + uint (display_height s) \<le> hline s + 1 \<Longrightarrow>
   hline (IRQ_csync mhz pin t s) = -1 \<and> frame (IRQ_csync mhz pin t s) = frame s + 1 \<and>
   tim1_smcr (IRQ_csync mhz pin t s) = 0"
  by (auto simp add: csync_defs before_box_not_past)

subsection \<open>The forced reset\<close>

lemma forced_reset_eq:
  "forced_reset s = s\<lparr>primask := False, tim1_smcr := 0, hline := HLINE_EOF\<rparr>"
  by (simp add: forced_reset_def forced_reset_steps_def IRQ_global_disable_def
      IRQ_global_enable_def)

lemma forced_reset_upto_simps:
  "forced_reset_upto 0 s = s"
  "forced_reset_upto 1 s = s\<lparr>primask := True\<rparr>"
  "forced_reset_upto (Suc 0) s = s\<lparr>primask := True\<rparr>"
  "forced_reset_upto 2 s = s\<lparr>primask := True, tim1_smcr := 0\<rparr>"
  "forced_reset_upto 3 s = s\<lparr>primask := True, tim1_smcr := 0, hline := HLINE_EOF\<rparr>"
  "forced_reset_upto 4 s = forced_reset s"
  by (simp_all add: forced_reset_upto_def forced_reset_def forced_reset_steps_def
      IRQ_global_disable_def IRQ_global_enable_def numeral_eq_Suc)

lemma sync_check_quiet:
  "time_diff (frame_time l) now1 \<le> time_ms mhz 100 \<Longrightarrow> sync_check mhz now1 now2 l s = (l, s)"
  by (simp add: sync_check_def)

lemma frame_done_restamps:
  "frame s \<noteq> 0 \<Longrightarrow> fst (frame_done now d l s) = l\<lparr>lost_sync := False, frame_time := now\<rparr>"
  by (simp add: frame_done_def)

lemma frame_done_idle: "frame s = 0 \<Longrightarrow> frame_done now d l s = (l, s)"
  by (simp add: frame_done_def)

subsection \<open>Runs\<close>

lemma run_append: "run mhz (es @ fs) s = run mhz fs (run mhz es s)"
  by (induction es arbitrary: s) simp_all

lemma config_deliver: "config (deliver mhz e s) = config s"
  by (cases e) (simp_all add: config_IRQ_csync IRQ_vsync_def forced_reset_eq)

lemma display_height_deliver: "display_height (deliver mhz e s) = display_height s"
  by (cases e) (simp_all add: display_height_IRQ_csync IRQ_vsync_def forced_reset_eq)

lemma config_run: "config (run mhz es s) = config s"
  by (induction es arbitrary: s) (simp_all add: config_deliver)

lemma display_height_run: "display_height (run mhz es s) = display_height s"
  by (induction es arbitrary: s) (simp_all add: display_height_deliver)

lemma hline_deliver_height0:
  "hline s \<le> 0 \<Longrightarrow> display_height s = 0 \<Longrightarrow> hline (deliver mhz e s) \<le> 0"
  by (cases e) (simp_all add: hline_csync_height0 IRQ_vsync_def forced_reset_eq
      HLINE_VBL_def HLINE_EOF_def)

lemma hline_run_height0:
  "hline s \<le> 0 \<Longrightarrow> display_height s = 0 \<Longrightarrow> hline (run mhz es s) \<le> 0"
  by (induction es arbitrary: s) (simp_all add: hline_deliver_height0 display_height_deliver)

lemma hline_deliver_range:
  "-1 \<le> hline s \<Longrightarrow> -1 \<le> hline (deliver mhz e s)"
  using IRQ_csync_hline_range [of s mhz]
  by (cases e) (simp_all add: IRQ_vsync_def forced_reset_eq HLINE_VBL_def HLINE_EOF_def)

text \<open>The line counter is never below \<^verbatim>\<open>HLINE_EOF\<close>.\<close>

lemma hline_run_range:
  "-1 \<le> hline s \<Longrightarrow> HLINE_EOF \<le> hline (run mhz es s)"
  by (induction es arbitrary: s) (simp_all add: hline_deliver_range HLINE_EOF_def)

lemma take_all_csync: "\<forall>e \<in> set es. is_csync e \<Longrightarrow> \<forall>e \<in> set (take k es). is_csync e"
  by (meson in_set_takeD)

text \<open>Below the end of the box every edge advances the line counter by one.\<close>

lemma run_active_lines:
  "0 < hline s \<Longrightarrow> \<forall>e \<in> set es. is_csync e \<Longrightarrow>
   hline s + int (length es) < uint (v_off (config s)) + uint (display_height s) \<Longrightarrow>
   hline (run mhz es s) = hline s + int (length es) \<and> frame (run mhz es s) = frame s"
proof (induction es arbitrary: s)
  case Nil
  then show ?case by simp
next
  case (Cons e es)
  from Cons.prems obtain pin t where e: "e = Csync pin t"
    by (cases e) auto
  let ?s = "IRQ_csync mhz pin t s"
  have h: "hline ?s = hline s + 1" and f: "frame ?s = frame s"
    using Cons.prems by (simp_all add: hline_csync_active frame_csync_active)
  have "hline (run mhz es ?s) = hline ?s + int (length es) \<and> frame (run mhz es ?s) = frame ?s"
    using Cons.prems h by (intro Cons.IH) (simp_all add: config_IRQ_csync display_height_IRQ_csync)
  then show ?case by (simp add: e h f)
qed

lemma frame_edges_int:
  "int (frame_edges s) = max 1 (uint (v_off (config s)) + uint (display_height s) - 1)"
proof -
  have "int (unat (v_off (config s)) + unat (display_height s)) =
        uint (v_off (config s)) + uint (display_height s)"
    by simp
  then show ?thesis
    unfolding frame_edges_def by linarith
qed

lemma run_frame_prefix:
  assumes sof: "hline s = HLINE_SOF" and cs: "\<forall>e \<in> set es. is_csync e"
    and k: "length es < frame_edges s"
  shows "hline (run mhz es s) = 1 + int (length es) \<and> frame (run mhz es s) = frame s"
proof (cases es)
  case Nil
  then show ?thesis using sof by (simp add: HLINE_SOF_def)
next
  case (Cons e fs)
  then have "hline s + int (length es) < uint (v_off (config s)) + uint (display_height s)"
    using k sof frame_edges_int [of s] by (simp add: HLINE_SOF_def)
  then show ?thesis
    using run_active_lines [of s es mhz] sof cs by (simp add: HLINE_SOF_def)
qed

lemma run_frame_complete:
  assumes sof: "hline s = HLINE_SOF" and cs: "\<forall>e \<in> set es. is_csync e"
    and n: "length es = frame_edges s"
  shows "hline (run mhz es s) = HLINE_EOF \<and> frame (run mhz es s) = frame s + 1
         \<and> tim1_smcr (run mhz es s) = 0"
proof -
  from n have "es \<noteq> []" by (auto simp: frame_edges_def)
  then obtain fs e where es: "es = fs @ [e]"
    by (metis rev_exhaust)
  with cs obtain pin t where e: "e = Csync pin t"
    by (cases e) auto
  have len: "length fs < frame_edges s" using n es by simp
  let ?s = "run mhz fs s"
  have pre: "hline ?s = 1 + int (length fs)" "frame ?s = frame s"
    using run_frame_prefix [OF sof _ len, of mhz] cs es by simp_all
  have "uint (v_off (config ?s)) + uint (display_height ?s) \<le> hline ?s + 1"
    using n es pre(1) frame_edges_int [of s] by (simp add: config_run display_height_run)
  moreover have "0 < hline ?s" using pre(1) by simp
  ultimately show ?thesis
    using csync_last_line [of ?s mhz pin t] pre(2) by (simp add: es e run_append HLINE_EOF_def)
qed

subsection \<open>Pulses\<close>

lemma sync_pulse_long:
  assumes "hline s \<le> 0" and "time_us mhz 10 < w"
  shows "hline (sync_pulse mhz t w s) = HLINE_VBL \<and> frame (sync_pulse mhz t w s) = frame s"
proof -
  let ?s = "IRQ_csync mhz (polarity (config s)) t s"
  have 1: "hline ?s \<le> 0" "frame ?s = frame s" "csync_p ?s = t"
    using csync_pulse_start [of s "polarity (config s)" mhz t] assms(1) by simp_all
  have "time_us mhz 10 < time_diff (csync_p ?s) (t + w)"
    using assms(2) 1(3) by (simp add: time_diff_def)
  then show ?thesis
    using csync_long_end [of ?s "\<not> polarity (config s)" mhz "t + w"] 1
    by (simp add: sync_pulse_def config_IRQ_csync HLINE_VBL_def)
qed

lemma sync_pulse_short_sof:
  assumes "hline s = HLINE_VBL" and "w \<le> time_us mhz 10" and "display_height s \<noteq> 0"
  shows "hline (sync_pulse mhz t w s) = HLINE_SOF \<and> frame (sync_pulse mhz t w s) = frame s"
proof -
  let ?s = "IRQ_csync mhz (polarity (config s)) t s"
  have 1: "hline ?s = 0" "frame ?s = frame s" "csync_p ?s = t"
    using csync_pulse_start [of s "polarity (config s)" mhz t] assms(1)
    by (simp_all add: HLINE_VBL_def)
  have "\<not> time_us mhz 10 < time_diff (csync_p ?s) (t + w)"
    using assms(2) 1(3) by (simp add: time_diff_def)
  then show ?thesis
    using csync_short_end_sof [of ?s "\<not> polarity (config s)" mhz "t + w"] 1 assms(3)
    by (simp add: sync_pulse_def config_IRQ_csync display_height_IRQ_csync HLINE_SOF_def)
qed

text \<open>With a height of 0 the short pulse after vertical blank ends the frame at once.\<close>

lemma sync_pulse_short_height0:
  assumes "hline s = HLINE_VBL" and "w \<le> time_us mhz 10" and "display_height s = 0"
  shows "hline (sync_pulse mhz t w s) = HLINE_EOF \<and> frame (sync_pulse mhz t w s) = frame s + 1"
proof -
  let ?s = "IRQ_csync mhz (polarity (config s)) t s"
  have 1: "hline ?s = 0" "frame ?s = frame s" "csync_p ?s = t"
    using csync_pulse_start [of s "polarity (config s)" mhz t] assms(1)
    by (simp_all add: HLINE_VBL_def)
  have "\<not> time_us mhz 10 < time_diff (csync_p ?s) (t + w)"
    using assms(2) 1(3) by (simp add: time_diff_def)
  then show ?thesis
    using 1 assms(3) display_height_IRQ_csync [of mhz "polarity (config s)" t s]
      config_IRQ_csync [of mhz "polarity (config s)" t s]
    by (simp add: sync_pulse_def IRQ_csync_def [of mhz _ _ ?s] Let_def eof_def
        HLINE_VBL_def HLINE_EOF_def)
qed

lemma config_sync_pulse: "config (sync_pulse mhz t w s) = config s"
  by (simp add: sync_pulse_def config_IRQ_csync)

lemma display_height_sync_pulse: "display_height (sync_pulse mhz t w s) = display_height s"
  by (simp add: sync_pulse_def display_height_IRQ_csync)

subsection \<open>The bounded wait\<close>

lemma wait_break_small_voff:
  "uint (v_off cfg) \<le> 2 \<Longrightarrow> HLINE_EOF \<le> h \<Longrightarrow> \<not> wait_break cfg h"
  by (simp add: wait_break_def HLINE_EOF_def)

lemma display_wait_full:
  "i \<le> 5 \<Longrightarrow> \<forall>j < 5. \<not> wait_break cfg (obs j) \<Longrightarrow> display_wait cfg obs i = 5"
  by (induction cfg obs i rule: display_wait.induct) auto

lemma display_wait_le: "i \<le> 5 \<Longrightarrow> display_wait cfg obs i \<le> 5"
  by (induction cfg obs i rule: display_wait.induct) auto

subsection \<open>The height of the next frame\<close>

lemma doubles_step:
  "i < nat (rows d) \<Longrightarrow> doubles d i = (if bit (heights d) i then 1 else 0) + doubles d (Suc i)"
  by (simp add: doubles_def upt_conv_Cons)

lemma doubles_done: "nat (rows d) \<le> i \<Longrightarrow> doubles d i = 0"
  by (simp add: doubles_def)

lemma doubles_le: "doubles d i \<le> nat (rows d)"
  unfolding doubles_def
  by (rule order_trans [OF length_filter_le]) simp

lemma height_loop_count:
  "0 \<le> i \<Longrightarrow> height_loop d i h = h + 8 * word_of_nat (doubles d (nat i))"
proof (induction d i h rule: height_loop.induct)
  case (1 d i height)
  show ?case
  proof (cases "i < rows d")
    case True
    then have lt: "nat i < nat (rows d)" using "1.prems" by simp
    have n: "nat (i + 1) = Suc (nat i)" using "1.prems" by simp
    show ?thesis
      using "1.IH" [OF True] "1.prems" True doubles_step [OF lt]
      by (subst height_loop.simps) (simp add: n)
  next
    case False
    then have "nat (rows d) \<le> nat i" by simp
    then show ?thesis
      using False doubles_done [of d "nat i"]
      by (subst height_loop.simps) simp
  qed
qed

lemma unat_min16: "unat (min (a :: 16 word) b) = min (unat a) (unat b)"
  by (simp add: min_def word_le_nat_alt)

lemma unat_next_height:
  assumes "0 \<le> rows d" and "rows d \<le> 31"
  shows "unat (next_height d) = min (requested_height d) MAX_DISPLAY_HEIGHT"
proof -
  have "doubles d 0 \<le> 31" using doubles_le [of d 0] assms by simp
  then have small: "requested_height d < 65536"
    using assms by (simp add: requested_height_def)
  have e: "rows d * 10 + 2 = int (nat (rows d) * 10 + 2)"
    using assms(1) by simp
  have "(word_of_int (rows d * 10 + 2) :: 16 word) = word_of_nat (nat (rows d) * 10 + 2)"
    by (subst e) (rule of_int_of_nat_eq)
  then have "height_loop d 0 (word_of_int (rows d * 10 + 2)) = word_of_nat (requested_height d)"
    using height_loop_count [of 0 d "word_of_int (rows d * 10 + 2)"]
    by (simp add: requested_height_def)
  moreover have "unat (word_of_nat (requested_height d) :: 16 word) = requested_height d"
    using small by (simp add: unat_of_nat)
  ultimately show ?thesis
    by (simp add: next_height_def unat_min16 MAX_DISPLAY_HEIGHT_def)
qed

lemma next_height_max:
  assumes "0 \<le> rows d" and "rows d \<le> 31" and "MAX_DISPLAY_HEIGHT < requested_height d"
  shows "next_height d = 52"
proof -
  have "unat (next_height d) = unat (52 :: 16 word)"
    using unat_next_height [OF assms(1,2)] assms(3) by (simp add: MAX_DISPLAY_HEIGHT_def)
  then show ?thesis by (simp only: word_unat_eq_iff)
qed

lemma frame_frame_commit: "frame (frame_commit d s) = frame s"
  by (simp add: frame_commit_def Let_def)

lemma config_frame_commit: "config (frame_commit d s) = config s"
  by (simp add: frame_commit_def Let_def)

lemma display_height_frame_commit:
  "display_height (frame_commit d s) = (if on d then next_height d else 0)"
  by (simp add: frame_commit_def Let_def)

subsection \<open>The reload values of the slave timers\<close>

text \<open>
  In the arithmetic of the 16-bit registers the two reloads are \<open>20 * h_off - 1\<close> and
  \<open>20 * h_off - 49\<close> for every offset, and they differ by 48 modulo \<open>2 ^ 16\<close>.
\<close>

lemma ucast_down_sub:
  "(ucast (ucast (h :: 16 word) * 20 - (k :: 32 word)) :: 16 word) = 20 * h - ucast k"
proof -
  have "uint h * 20 < 4294967296"
    using uint_lt2p [of h] by simp
  then have b: "uint h * 20 mod 4294967296 = uint h * 20"
    by simp
  have "uint (ucast (ucast h * 20 - k :: 32 word) :: 16 word) = uint (20 * h - ucast k :: 16 word)"
    by (simp add: unsigned_ucast_eq uint_word_ariths take_bit_eq_mod mod_mod_cancel b
        mod_simps mult.commute)
  then show ?thesis by (simp only: word_uint_eq_iff)
qed

lemma slave_arr_mod:
  "tim2_arr (slave_arr_update s) = 20 * h_off (config s) - 1
   \<and> tim3_arr (slave_arr_update s) = 20 * h_off (config s) - 49
   \<and> tim2_arr (slave_arr_update s) - tim3_arr (slave_arr_update s) = 48"
  using ucast_down_sub [of "h_off (config s)" 1] ucast_down_sub [of "h_off (config s)" 49]
  by (simp add: slave_arr_update_def Let_def)

text \<open>Read as unsigned numbers, which is how the timers count:\<close>

lemma reg16_of_nat:
  "n < 2 ^ 32 \<Longrightarrow> unat (ucast (word_of_nat n :: 32 word) :: 16 word) = n mod 65536"
  by (simp add: unsigned_of_nat unat_of_nat take_bit_nat_eq_self take_bit_eq_mod)

lemma hstart_minus:
  "k \<le> unat h * 20 \<Longrightarrow>
   (word_of_nat (unat h * 20 - k) :: 32 word) = ucast (h :: 16 word) * 20 - word_of_nat k"
  by (simp add: of_nat_diff)

lemma unat_h_bound: "unat (h :: 16 word) * 20 < 2 ^ 32"
proof -
  have "unat h < 2 ^ 16" using unsigned_less [of h] by simp
  then show ?thesis by simp
qed

lemma slave_arr_values:
  assumes "49 \<le> unat (h_off (config s)) * 20"
  shows "unat (tim2_arr (slave_arr_update s)) = (unat (h_off (config s)) * 20 - 1) mod 65536"
    and "unat (tim3_arr (slave_arr_update s)) = (unat (h_off (config s)) * 20 - 49) mod 65536"
proof -
  let ?h = "h_off (config s)"
  have b: "unat ?h * 20 - 1 < 2 ^ 32" "unat ?h * 20 - 49 < 2 ^ 32"
    using unat_h_bound [of ?h] by simp_all
  have "tim2_arr (slave_arr_update s) = ucast (word_of_nat (unat ?h * 20 - 1) :: 32 word)"
    using hstart_minus [of 1 ?h] assms by (simp add: slave_arr_update_def Let_def)
  then show "unat (tim2_arr (slave_arr_update s)) = (unat ?h * 20 - 1) mod 65536"
    using reg16_of_nat [OF b(1)] by simp
  have "tim3_arr (slave_arr_update s) = ucast (word_of_nat (unat ?h * 20 - 49) :: 32 word)"
    using hstart_minus [of 49 ?h] assms by (simp add: slave_arr_update_def Let_def)
  then show "unat (tim3_arr (slave_arr_update s)) = (unat ?h * 20 - 49) mod 65536"
    using reg16_of_nat [OF b(2)] by simp
qed

text \<open>
  From \<open>h_off = 3\<close> up to \<open>h_off = 3276\<close> neither subtraction wraps and the product fits
  the 16-bit register: the reload of TIM3 is 48 ticks below that of TIM2.
\<close>

lemma slave_arr_order:
  assumes "3 \<le> unat (h_off (config s))" and "unat (h_off (config s)) \<le> 3276"
  shows "unat (tim3_arr (slave_arr_update s)) + 48 = unat (tim2_arr (slave_arr_update s))"
proof -
  have "49 \<le> unat (h_off (config s)) * 20" using assms(1) by simp
  from slave_arr_values [OF this] show ?thesis
    using assms by simp
qed

section \<open>The claims\<close>

text \<open>
  C1. The end-to-end scenario: active-low polarity, \<open>h_off = 2\<close>, \<open>v_off = 3\<close>, a height of
  10 lines. From EndOfFrame, a low pulse of 15 microseconds leaves the machine in
  VerticalBlank, a low pulse of 4 microseconds then starts the frame (\<open>hline = 1\<close>), and of
  the 12 edges that follow the first 11 leave \<open>frame\<close> as it was while the 12th (the 13th
  edge after the blanking pulse, counting the short pulse) increments it once and leaves
  the machine in EndOfFrame. The width of the box in columns plays no part in the handler.
\<close>

theorem scenario_one_frame:
  assumes "0 < mhz" and "hline s = HLINE_EOF"
    and "config s = scenario_config" and "display_height s = 10"
    and "\<forall>e \<in> set es. is_csync e" and "length es = 12"
    and "s1 = sync_pulse mhz t0 (time_us mhz 15) s"
    and "s2 = sync_pulse mhz t1 (time_us mhz 4) s1"
  shows "hline s1 = HLINE_VBL \<and> frame s1 = frame s
         \<and> hline s2 = HLINE_SOF \<and> frame s2 = frame s
         \<and> (\<forall>k < 12. hline (run mhz (take k es) s2) = 1 + int k
                    \<and> frame (run mhz (take k es) s2) = frame s)
         \<and> frame (run mhz es s2) = frame s + 1
         \<and> hline (run mhz es s2) = HLINE_EOF"
proof -
  have 1: "hline s1 = HLINE_VBL \<and> frame s1 = frame s"
    using sync_pulse_long [of s mhz "time_us mhz 15" t0] assms(1,2,7)
    by (simp add: HLINE_EOF_def time_us_def)
  have c1: "config s1 = scenario_config" "display_height s1 = 10"
    using assms(3,4,7) by (simp_all add: config_sync_pulse display_height_sync_pulse)
  have 2: "hline s2 = HLINE_SOF \<and> frame s2 = frame s"
    using sync_pulse_short_sof [of s1 "time_us mhz 4" mhz t1] 1 c1 assms(1,8)
    by (simp add: time_us_def)
  have c2: "config s2 = scenario_config" "display_height s2 = 10"
    using c1 assms(8) by (simp_all add: config_sync_pulse display_height_sync_pulse)
  have n: "frame_edges s2 = 12"
    using c2 by (simp add: frame_edges_def scenario_config_def)
  have 3: "hline (run mhz (take k es) s2) = 1 + int k \<and> frame (run mhz (take k es) s2) = frame s"
    if "k < 12" for k
    using run_frame_prefix [of s2 "take k es" mhz] 2 take_all_csync [OF assms(5)] that n assms(6)
    by simp
  have 4: "hline (run mhz es s2) = HLINE_EOF \<and> frame (run mhz es s2) = frame s + 1"
    using run_frame_complete [of s2 es mhz] 2 assms(5,6) n by simp
  show ?thesis using 1 2 3 4 by simp
qed

theorem scenario_one_frame_witness:
  "frame (run 9 (replicate 12 (Csync False 0))
      (sync_pulse 9 576 (time_us 9 4) (sync_pulse 9 0 (time_us 9 15) eof_state))) = frame eof_state + 1
   \<and> hline (run 9 (replicate 12 (Csync False 0))
      (sync_pulse 9 576 (time_us 9 4) (sync_pulse 9 0 (time_us 9 15) eof_state))) = HLINE_EOF"
proof -
  have a: "(0::int) < 9" by simp
  have b: "hline eof_state = HLINE_EOF" by (simp add: eof_state_def HLINE_EOF_def)
  have c: "config eof_state = scenario_config" by (simp add: eof_state_def osd_zero_def)
  have d: "display_height eof_state = 10" by (simp add: eof_state_def)
  have e: "\<forall>e \<in> set (replicate 12 (Csync False 0)). is_csync e" by simp
  have f: "length (replicate 12 (Csync False 0)) = 12" by simp
  show ?thesis
    using scenario_one_frame [OF a b c d e f refl refl] by blast
qed

text \<open>
  C2, as the handler has it. A frame that has started (\<open>hline = 1\<close>) with a height \<open>H\<close>,
  \<open>0 < H \<le> 52\<close>, ends after exactly \<open>frame_edges\<close> edges, that is \<open>max 1 (v_off + H - 1)\<close>:
  after every shorter run of edges the machine is in an active line and \<open>frame\<close> is
  unchanged, and the last edge sets EndOfFrame and increments \<open>frame\<close> once. The count is
  \<open>v_off + H - 1\<close> whenever \<open>v_off \<ge> 1\<close>. It equals \<open>H\<close> in two cases and no other: when
  \<open>v_off = 1\<close>, and when \<open>v_off = 0\<close> and \<open>H = 1\<close> (the first edge takes the line counter to
  2, which is already past a box of one line at offset 0).
\<close>

theorem frame_takes_v_off_plus_height_edges:
  assumes "hline s = HLINE_SOF"
    and "0 < unat (display_height s)" and "unat (display_height s) \<le> MAX_DISPLAY_HEIGHT"
    and "\<forall>e \<in> set es. is_csync e"
    and "length es = frame_edges s"
  shows "(\<forall>k < length es. hline (run mhz (take k es) s) = 1 + int k
            \<and> frame (run mhz (take k es) s) = frame s)
         \<and> hline (run mhz es s) = HLINE_EOF
         \<and> frame (run mhz es s) = frame s + 1
         \<and> (1 \<le> unat (v_off (config s)) \<longrightarrow>
              length es + 1 = unat (v_off (config s)) + unat (display_height s))
         \<and> (unat (v_off (config s)) = 1 \<longrightarrow> length es = unat (display_height s))
         \<and> (length es = unat (display_height s) \<longleftrightarrow>
              unat (v_off (config s)) = 1
              \<or> (unat (v_off (config s)) = 0 \<and> unat (display_height s) = 1))"
proof -
  have "hline (run mhz (take k es) s) = 1 + int k \<and> frame (run mhz (take k es) s) = frame s"
    if "k < length es" for k
    using run_frame_prefix [of s "take k es" mhz] assms(1,5) take_all_csync [OF assms(4)] that
    by simp
  moreover have "1 \<le> unat (v_off (config s)) \<longrightarrow>
      length es + 1 = unat (v_off (config s)) + unat (display_height s)"
    using assms(2,5) by (simp add: frame_edges_def)
  moreover have "unat (v_off (config s)) = 1 \<longrightarrow> length es = unat (display_height s)"
    using assms(2,5) by (simp add: frame_edges_def)
  moreover have "length es = unat (display_height s) \<longleftrightarrow>
      unat (v_off (config s)) = 1
      \<or> (unat (v_off (config s)) = 0 \<and> unat (display_height s) = 1)"
    using assms(2,5) unfolding frame_edges_def by linarith
  ultimately show ?thesis
    using run_frame_complete [OF assms(1) assms(4) assms(5), of mhz] by simp
qed

theorem frame_takes_v_off_plus_height_edges_witness:
  "hline sof_state = HLINE_SOF \<and> 0 < unat (display_height sof_state)
   \<and> unat (display_height sof_state) \<le> MAX_DISPLAY_HEIGHT
   \<and> length (replicate 12 (Csync False 0)) = frame_edges sof_state
   \<and> hline (run 9 (replicate 12 (Csync False 0)) sof_state) = HLINE_EOF
   \<and> frame (run 9 (replicate 12 (Csync False 0)) sof_state) = frame sof_state + 1
   \<and> unat (v_off (config ((osd_zero (scenario_config\<lparr>v_off := 0\<rparr>))
        \<lparr>hline := 1, display_height := 1\<rparr>))) = 0
   \<and> length [Csync False 0] = unat (display_height ((osd_zero (scenario_config\<lparr>v_off := 0\<rparr>))
        \<lparr>hline := 1, display_height := 1\<rparr>))
   \<and> hline (run 9 [Csync False 0] ((osd_zero (scenario_config\<lparr>v_off := 0\<rparr>))
        \<lparr>hline := 1, display_height := 1\<rparr>)) = HLINE_EOF"
proof -
  have a: "hline sof_state = HLINE_SOF" by (simp add: sof_state_def HLINE_SOF_def)
  have b: "0 < unat (display_height sof_state)" by (simp add: sof_state_def)
  have c: "unat (display_height sof_state) \<le> MAX_DISPLAY_HEIGHT"
    by (simp add: sof_state_def MAX_DISPLAY_HEIGHT_def)
  have d: "\<forall>e \<in> set (replicate 12 (Csync False 0)). is_csync e" by simp
  have e: "length (replicate 12 (Csync False 0)) = frame_edges sof_state"
    by (simp add: frame_edges_def sof_state_def osd_zero_def scenario_config_def)
  let ?z = "(osd_zero (scenario_config\<lparr>v_off := 0\<rparr>))\<lparr>hline := 1, display_height := 1\<rparr>"
  have a': "hline ?z = HLINE_SOF" by (simp add: HLINE_SOF_def)
  have b': "0 < unat (display_height ?z)" by simp
  have c': "unat (display_height ?z) \<le> MAX_DISPLAY_HEIGHT"
    by (simp add: MAX_DISPLAY_HEIGHT_def)
  have d': "\<forall>e \<in> set [Csync False 0]. is_csync e" by simp
  have e': "length [Csync False 0] = frame_edges ?z"
    by (simp add: frame_edges_def osd_zero_def scenario_config_def)
  have v': "unat (v_off (config ?z)) = 0"
    by (simp add: osd_zero_def scenario_config_def)
  have l': "length [Csync False 0] = unat (display_height ?z)" by simp
  show ?thesis
    using frame_takes_v_off_plus_height_edges [OF a b c d e, of 9]
      frame_takes_v_off_plus_height_edges [OF a' b' c' d' e', of 9] a b c e v' l'
    by blast
qed

text \<open>
  C2 as the spec states it fails. With \<open>v_off = 3\<close> and a height of 10, ten edges after the
  start of the frame the machine is on line 11, not in EndOfFrame, and \<open>frame\<close> has not
  moved.
\<close>

theorem height_edges_do_not_end_the_frame:
  "hline sof_state = HLINE_SOF \<and> unat (display_height sof_state) = 10
   \<and> hline (run 9 (replicate 10 (Csync False 0)) sof_state) = 11
   \<and> hline (run 9 (replicate 10 (Csync False 0)) sof_state) \<noteq> HLINE_EOF
   \<and> frame (run 9 (replicate 10 (Csync False 0)) sof_state) = frame sof_state"
  by code_simp

text \<open>
  C3. With a configured height of 0 the machine never enters an active line: from any
  state with \<open>hline \<le> 0\<close>, whatever is delivered (edges of the composite sync with any pin
  level and any time, vertical-sync interrupts, forced resets), \<open>hline\<close> is at most 0 after
  every prefix of the events and after all of them. A short pulse after vertical blank
  therefore starts no frame.
\<close>

theorem height0_never_active:
  assumes "display_height s = 0" and "hline s \<le> 0"
  shows "hline (run mhz (take k es) s) \<le> 0 \<and> hline (run mhz es s) < HLINE_SOF"
  using assms hline_run_height0 [of s mhz "take k es"] hline_run_height0 [of s mhz es]
  by (simp add: HLINE_SOF_def)

theorem height0_never_active_witness:
  "display_height (osd_zero scenario_config) = 0 \<and> hline (osd_zero scenario_config) \<le> 0
   \<and> hline (run 9 (take 4 idle_pulses) (osd_zero scenario_config)) \<le> 0
   \<and> hline (run 9 idle_pulses (osd_zero scenario_config)) < HLINE_SOF"
proof -
  have a: "display_height (osd_zero scenario_config) = 0" by (simp add: osd_zero_def)
  have b: "hline (osd_zero scenario_config) \<le> 0" by (simp add: osd_zero_def)
  show ?thesis
    using height0_never_active [OF a b, of 9 4 idle_pulses] a b by blast
qed

text \<open>
  C4. With a height of 0, the end of a short pulse (at most 10 microseconds) seen in
  VerticalBlank goes straight to the end-of-frame statements: \<open>hline\<close> becomes -1, the
  slave-mode control register of the master timer is cleared and \<open>frame\<close> is incremented by
  one. The slave timers and the capture polarity are not touched, so neither
  \<^verbatim>\<open>slave_arr_update\<close> nor \<^verbatim>\<open>set_polarity\<close> has run.
\<close>

theorem height0_short_pulse_goes_to_eof:
  assumes "hline s = HLINE_VBL" and "display_height s = 0"
    and "pin \<noteq> polarity (config s)"
    and "time_diff (csync_p s) t \<le> time_us mhz 10"
  shows "hline (IRQ_csync mhz pin t s) = HLINE_EOF
         \<and> tim1_smcr (IRQ_csync mhz pin t s) = 0
         \<and> frame (IRQ_csync mhz pin t s) = frame s + 1
         \<and> tim2_arr (IRQ_csync mhz pin t s) = tim2_arr s
         \<and> tim3_arr (IRQ_csync mhz pin t s) = tim3_arr s
         \<and> tim2_ccr1 (IRQ_csync mhz pin t s) = tim2_ccr1 s
         \<and> tim1_ccer (IRQ_csync mhz pin t s) = tim1_ccer s"
  using assms by (simp add: csync_defs)

theorem height0_short_pulse_goes_to_eof_witness:
  "hline (osd_zero scenario_config) = HLINE_VBL
   \<and> display_height (osd_zero scenario_config) = 0
   \<and> True \<noteq> polarity (config (osd_zero scenario_config))
   \<and> time_diff (csync_p (osd_zero scenario_config)) 36 \<le> time_us 9 10
   \<and> hline (IRQ_csync 9 True 36 (osd_zero scenario_config)) = HLINE_EOF
   \<and> tim1_smcr (IRQ_csync 9 True 36 (osd_zero scenario_config)) = 0
   \<and> frame (IRQ_csync 9 True 36 (osd_zero scenario_config)) = frame (osd_zero scenario_config) + 1"
proof -
  have a: "hline (osd_zero scenario_config) = HLINE_VBL"
    by (simp add: osd_zero_def HLINE_VBL_def)
  have b: "display_height (osd_zero scenario_config) = 0"
    by (simp add: osd_zero_def)
  have c: "True \<noteq> polarity (config (osd_zero scenario_config))"
    by (simp add: osd_zero_def scenario_config_def)
  have d: "time_diff (csync_p (osd_zero scenario_config)) 36 \<le> time_us 9 10"
    by (simp add: osd_zero_def time_diff_def time_us_def)
  show ?thesis
    using height0_short_pulse_goes_to_eof [OF a b c d] a b c d by blast
qed

text \<open>
  C5. In a state with \<open>hline \<le> 0\<close>, the edge that ends a long pulse (the pin is back at
  the idle level and more than 10 microseconds have passed since the pulse began) sets
  VerticalBlank. Processing the same edge again, any number of times, keeps VerticalBlank:
  the line counter never goes above 0 and \<open>frame\<close> keeps its value.
\<close>

theorem long_pulse_idempotent:
  assumes "hline s \<le> 0" and "pin \<noteq> polarity (config s)"
    and "time_diff (csync_p s) t > time_us mhz 10"
  shows "hline (IRQ_csync mhz pin t s) = HLINE_VBL
         \<and> hline ((IRQ_csync mhz pin t ^^ Suc n) s) = HLINE_VBL
         \<and> hline ((IRQ_csync mhz pin t ^^ n) s) \<le> 0
         \<and> frame ((IRQ_csync mhz pin t ^^ n) s) = frame s"
proof -
  have inv: "hline ((IRQ_csync mhz pin t ^^ k) s) \<le> 0
      \<and> frame ((IRQ_csync mhz pin t ^^ k) s) = frame s
      \<and> csync_p ((IRQ_csync mhz pin t ^^ k) s) = csync_p s
      \<and> config ((IRQ_csync mhz pin t ^^ k) s) = config s" for k
  proof (induction k)
    case 0
    then show ?case using assms(1) by simp
  next
    case (Suc k)
    then show ?case
      using csync_long_end [of "(IRQ_csync mhz pin t ^^ k) s" pin mhz t] assms(2,3)
      by (simp add: config_IRQ_csync)
  qed
  have "hline ((IRQ_csync mhz pin t ^^ Suc k) s) = HLINE_VBL" for k
    using csync_long_end [of "(IRQ_csync mhz pin t ^^ k) s" pin mhz t] assms(2,3) inv [of k]
    by (simp add: HLINE_VBL_def)
  from this [of 0] this [of n] inv [of n] show ?thesis by simp
qed

theorem long_pulse_idempotent_witness:
  "hline eof_state \<le> 0 \<and> True \<noteq> polarity (config eof_state)
   \<and> time_diff (csync_p eof_state) 135 > time_us 9 10
   \<and> hline ((IRQ_csync 9 True 135 ^^ Suc 2) eof_state) = HLINE_VBL
   \<and> frame ((IRQ_csync 9 True 135 ^^ 2) eof_state) = frame eof_state"
proof -
  have a: "hline eof_state \<le> 0"
    by (simp add: eof_state_def osd_zero_def)
  have b: "True \<noteq> polarity (config eof_state)"
    by (simp add: eof_state_def osd_zero_def scenario_config_def)
  have c: "time_diff (csync_p eof_state) 135 > time_us 9 10"
    by (simp add: eof_state_def osd_zero_def time_diff_def time_us_def)
  show ?thesis
    using long_pulse_idempotent [OF a b c, of 2] a b c by blast
qed

text \<open>
  C6. When the main loop finds more than 100 milliseconds between \<open>frame_time\<close> and now,
  it marks sync as lost, stamps \<open>frame_time\<close> with the current time and runs the forced
  reset: the slave-mode control register of the master timer is cleared and \<open>hline\<close> is set
  to EndOfFrame, both while \<open>primask\<close> is set (it is set in the states in which statements
  1 and 2 of the reset execute, and clear again at the end); \<open>frame\<close> is not changed. Since
  \<open>frame_time\<close> is the time of the reset, the next check, at time \<open>n1\<close> and in whatever state
  \<open>s'\<close> the interrupts have left, resets again exactly when more than 100 milliseconds have
  passed since the last reset, and does nothing before that.

  What ends the repetition is a completed frame. As long as the block \<^verbatim>\<open>if (frame)\<close> finds
  \<open>frame = 0\<close> (state \<open>sf\<close>) it changes nothing, so \<open>frame_time\<close> stays the time of the last
  reset and the resets go on. Once it finds \<open>frame \<noteq> 0\<close> it clears \<open>lost_sync\<close>, stamps
  \<open>frame_time\<close> with the time \<open>nowf\<close> at which it saw the frame and sets \<open>frame\<close> back to 0;
  the next check then does nothing if at most 100 milliseconds have passed since \<open>nowf\<close>,
  and resets again (marking sync as lost) if more have passed with no frame seen.
\<close>

theorem sync_loss_forced_reset:
  assumes "time_diff (frame_time l) now1 > time_ms mhz 100"
  shows "sync_check mhz now1 now2 l s = (l\<lparr>lost_sync := True, frame_time := now2\<rparr>, forced_reset s)
    \<and> tim1_smcr (forced_reset s) = 0 \<and> hline (forced_reset s) = HLINE_EOF
    \<and> frame (forced_reset s) = frame s
    \<and> primask (forced_reset_upto 1 s) \<and> primask (forced_reset_upto 2 s)
    \<and> primask (forced_reset_upto 3 s) \<and> forced_reset_upto 4 s = forced_reset s
    \<and> \<not> primask (forced_reset s)
    \<and> (time_diff now2 n1 > time_ms mhz 100 \<longrightarrow>
         sync_check mhz n1 n2 (fst (sync_check mhz now1 now2 l s)) s' =
           (l\<lparr>lost_sync := True, frame_time := n2\<rparr>, forced_reset s'))
    \<and> (time_diff now2 n1 \<le> time_ms mhz 100 \<longrightarrow>
         sync_check mhz n1 n2 (fst (sync_check mhz now1 now2 l s)) s' =
           (l\<lparr>lost_sync := True, frame_time := now2\<rparr>, s'))
    \<and> (frame sf = 0 \<longrightarrow>
         frame_done nowf d (fst (sync_check mhz now1 now2 l s)) sf =
           (l\<lparr>lost_sync := True, frame_time := now2\<rparr>, sf))
    \<and> (frame sf \<noteq> 0 \<longrightarrow>
         fst (frame_done nowf d (fst (sync_check mhz now1 now2 l s)) sf) =
           l\<lparr>lost_sync := False, frame_time := nowf\<rparr>
         \<and> frame (snd (frame_done nowf d (fst (sync_check mhz now1 now2 l s)) sf)) = 0
         \<and> (time_diff nowf n1 \<le> time_ms mhz 100 \<longrightarrow>
              sync_check mhz n1 n2
                (fst (frame_done nowf d (fst (sync_check mhz now1 now2 l s)) sf)) s' =
                (l\<lparr>lost_sync := False, frame_time := nowf\<rparr>, s'))
         \<and> (time_diff nowf n1 > time_ms mhz 100 \<longrightarrow>
              sync_check mhz n1 n2
                (fst (frame_done nowf d (fst (sync_check mhz now1 now2 l s)) sf)) s' =
                (l\<lparr>lost_sync := True, frame_time := n2\<rparr>, forced_reset s')))"
  using assms
  by (simp add: sync_check_def frame_done_def frame_frame_commit forced_reset_eq
      forced_reset_upto_simps)

theorem sync_loss_forced_reset_witness:
  "time_diff (frame_time main_start) 900001 > time_ms 9 100
   \<and> hline (snd (sync_check 9 900001 900002 main_start sof_state)) = HLINE_EOF
   \<and> tim1_smcr (snd (sync_check 9 900001 900002 main_start sof_state)) = 0
   \<and> frame_time (fst (sync_check 9 900001 900002 main_start sof_state)) = 900002
   \<and> time_diff 900002 1800003 > time_ms 9 100
   \<and> hline (snd (sync_check 9 1800003 1800004
        (fst (sync_check 9 900001 900002 main_start sof_state)) sof_state)) = HLINE_EOF
   \<and> time_diff 900002 1000000 \<le> time_ms 9 100
   \<and> snd (sync_check 9 1000000 1000001
        (fst (sync_check 9 900001 900002 main_start sof_state)) sof_state) = sof_state
   \<and> frame (sof_state\<lparr>frame := 1\<rparr>) \<noteq> 0
   \<and> time_diff 950000 1000000 \<le> time_ms 9 100
   \<and> fst (frame_done 950000 tall_display
        (fst (sync_check 9 900001 900002 main_start sof_state)) (sof_state\<lparr>frame := 1\<rparr>)) =
       main_start\<lparr>lost_sync := False, frame_time := 950000\<rparr>
   \<and> frame (snd (frame_done 950000 tall_display
        (fst (sync_check 9 900001 900002 main_start sof_state)) (sof_state\<lparr>frame := 1\<rparr>))) = 0
   \<and> sync_check 9 1000000 1000001
        (fst (frame_done 950000 tall_display
           (fst (sync_check 9 900001 900002 main_start sof_state)) (sof_state\<lparr>frame := 1\<rparr>)))
        sof_state =
       (main_start\<lparr>lost_sync := False, frame_time := 950000\<rparr>, sof_state)"
proof -
  have a: "time_diff (frame_time main_start) 900001 > time_ms 9 100"
    by (simp add: main_start_def time_diff_def time_ms_def)
  have b: "time_diff 900002 1800003 > time_ms 9 100"
    by (simp add: time_diff_def time_ms_def)
  have c: "time_diff 900002 1000000 \<le> time_ms 9 100"
    by (simp add: time_diff_def time_ms_def)
  have f: "frame (sof_state\<lparr>frame := 1\<rparr>) \<noteq> 0" by simp
  have g: "time_diff 950000 1000000 \<le> time_ms 9 100"
    by (simp add: time_diff_def time_ms_def)
  let ?l = "main_start\<lparr>lost_sync := True, frame_time := 900002\<rparr>"
  note again = sync_loss_forced_reset [OF a, of 900002 sof_state 1800003 1800004 sof_state]
  note quiet = sync_loss_forced_reset [OF a, of 900002 sof_state 1000000 1000001 sof_state
      "sof_state\<lparr>frame := 1\<rparr>" 950000 tall_display]
  from again have 1: "sync_check 9 900001 900002 main_start sof_state = (?l, forced_reset sof_state)"
    and 2: "tim1_smcr (forced_reset sof_state) = 0"
    and 3: "hline (forced_reset sof_state) = HLINE_EOF"
    by blast+
  from again b have 4: "sync_check 9 1800003 1800004 ?l sof_state =
      (main_start\<lparr>lost_sync := True, frame_time := 1800004\<rparr>, forced_reset sof_state)"
    by (simp add: 1)
  from quiet c have 5: "sync_check 9 1000000 1000001 ?l sof_state = (?l, sof_state)"
    by (simp add: 1)
  have reset: "time_diff (frame_time main_start) 900001 > time_ms 9 100
   \<and> hline (snd (sync_check 9 900001 900002 main_start sof_state)) = HLINE_EOF
   \<and> tim1_smcr (snd (sync_check 9 900001 900002 main_start sof_state)) = 0
   \<and> frame_time (fst (sync_check 9 900001 900002 main_start sof_state)) = 900002
   \<and> time_diff 900002 1800003 > time_ms 9 100
   \<and> hline (snd (sync_check 9 1800003 1800004
        (fst (sync_check 9 900001 900002 main_start sof_state)) sof_state)) = HLINE_EOF
   \<and> time_diff 900002 1000000 \<le> time_ms 9 100
   \<and> snd (sync_check 9 1000000 1000001
        (fst (sync_check 9 900001 900002 main_start sof_state)) sof_state) = sof_state"
    using a b c by (simp add: 1 2 3 4 5)
  have seen: "fst (frame_done 950000 tall_display
        (fst (sync_check 9 900001 900002 main_start sof_state)) (sof_state\<lparr>frame := 1\<rparr>)) =
       main_start\<lparr>lost_sync := False, frame_time := 950000\<rparr>
   \<and> frame (snd (frame_done 950000 tall_display
        (fst (sync_check 9 900001 900002 main_start sof_state)) (sof_state\<lparr>frame := 1\<rparr>))) = 0
   \<and> sync_check 9 1000000 1000001
        (fst (frame_done 950000 tall_display
           (fst (sync_check 9 900001 900002 main_start sof_state)) (sof_state\<lparr>frame := 1\<rparr>)))
        sof_state =
       (main_start\<lparr>lost_sync := False, frame_time := 950000\<rparr>, sof_state)"
    using quiet f g by blast
  show ?thesis
    using reset seen f g by blast
qed

text \<open>
  C7, as the main loop has it. For a display of 0 to 31 rows the height of the next frame
  is \<open>rows * 10 + 2\<close> plus 8 for each double-height row among the first \<open>rows\<close> rows, cut
  to 52. The main loop stores it in \<open>display_height\<close> when the display is on, and stores 0
  when the display is off. So when the display is on and the height asked for is above 52,
  \<open>display_height\<close> is 52, and the frame that starts next (after any events \<open>es0\<close> that lead
  to the start of a frame) ends after \<open>v_off + 51\<close> edges and increments \<open>frame\<close> once,
  exactly as a frame of height 52 does.
\<close>

theorem next_height_clamped:
  assumes "0 \<le> rows d" and "rows d \<le> 31"
  shows "unat (next_height d) = min (requested_height d) MAX_DISPLAY_HEIGHT
    \<and> display_height (frame_commit d s) = (if on d then next_height d else 0)
    \<and> (on d \<and> MAX_DISPLAY_HEIGHT < requested_height d \<longrightarrow>
         display_height (frame_commit d s) = 52
         \<and> frame_edges (run mhz es0 (frame_commit d s)) = unat (v_off (config s)) + 51
         \<and> (hline (run mhz es0 (frame_commit d s)) = HLINE_SOF
              \<and> (\<forall>e \<in> set es. is_csync e)
              \<and> length es = unat (v_off (config s)) + 51 \<longrightarrow>
             (\<forall>k < length es.
                 hline (run mhz (take k es) (run mhz es0 (frame_commit d s))) = 1 + int k
                 \<and> frame (run mhz (take k es) (run mhz es0 (frame_commit d s)))
                     = frame (run mhz es0 (frame_commit d s)))
             \<and> hline (run mhz es (run mhz es0 (frame_commit d s))) = HLINE_EOF
             \<and> frame (run mhz es (run mhz es0 (frame_commit d s)))
                 = frame (run mhz es0 (frame_commit d s)) + 1))"
proof (intro conjI impI)
  show "unat (next_height d) = min (requested_height d) MAX_DISPLAY_HEIGHT"
    by (rule unat_next_height [OF assms])
  show "display_height (frame_commit d s) = (if on d then next_height d else 0)"
    by (rule display_height_frame_commit)
next
  assume big: "on d \<and> MAX_DISPLAY_HEIGHT < requested_height d"
  then show h52: "display_height (frame_commit d s) = 52"
    using next_height_max [OF assms] by (simp add: display_height_frame_commit)
  then show "frame_edges (run mhz es0 (frame_commit d s)) = unat (v_off (config s)) + 51"
    by (simp add: frame_edges_def display_height_run config_run config_frame_commit)
next
  let ?s = "run mhz es0 (frame_commit d s)"
  assume big: "on d \<and> MAX_DISPLAY_HEIGHT < requested_height d"
    and fr: "hline ?s = HLINE_SOF \<and> (\<forall>e \<in> set es. is_csync e)
      \<and> length es = unat (v_off (config s)) + 51"
  have n: "length es = frame_edges ?s"
    using big fr next_height_max [OF assms]
    by (simp add: frame_edges_def display_height_run config_run config_frame_commit
        display_height_frame_commit)
  have "hline (run mhz (take k es) ?s) = 1 + int k \<and> frame (run mhz (take k es) ?s) = frame ?s"
    if "k < length es" for k
    using run_frame_prefix [of ?s "take k es" mhz] fr n that take_all_csync [of es k] by simp
  then show "\<forall>k < length es. hline (run mhz (take k es) ?s) = 1 + int k
      \<and> frame (run mhz (take k es) ?s) = frame ?s"
    by blast
  show "hline (run mhz es ?s) = HLINE_EOF" "frame (run mhz es ?s) = frame ?s + 1"
    using run_frame_complete [of ?s es mhz] fr n by simp_all
qed

theorem next_height_clamped_witness:
  "0 \<le> rows tall_display \<and> rows tall_display \<le> 31 \<and> on tall_display
   \<and> requested_height tall_display = 74
   \<and> MAX_DISPLAY_HEIGHT < requested_height tall_display
   \<and> hline (run 9 start_pulses (frame_commit tall_display eof_state)) = HLINE_SOF
   \<and> length (replicate 54 (Csync False 0)) = unat (v_off (config eof_state)) + 51
   \<and> unat (next_height tall_display) = min (requested_height tall_display) MAX_DISPLAY_HEIGHT
   \<and> display_height (frame_commit tall_display eof_state) = 52
   \<and> hline (run 9 (replicate 54 (Csync False 0))
        (run 9 start_pulses (frame_commit tall_display eof_state))) = HLINE_EOF
   \<and> frame (run 9 (replicate 54 (Csync False 0))
        (run 9 start_pulses (frame_commit tall_display eof_state)))
       = frame (run 9 start_pulses (frame_commit tall_display eof_state)) + 1"
proof -
  have a: "0 \<le> rows tall_display" by (simp add: tall_display_def)
  have b: "rows tall_display \<le> 31" by (simp add: tall_display_def)
  have c: "on tall_display" by (simp add: tall_display_def)
  have r: "requested_height tall_display = 74" by code_simp
  have d: "MAX_DISPLAY_HEIGHT < requested_height tall_display"
    by (simp add: r MAX_DISPLAY_HEIGHT_def)
  have e: "hline (run 9 start_pulses (frame_commit tall_display eof_state)) = HLINE_SOF"
    by code_simp
  have f: "\<forall>e \<in> set (replicate 54 (Csync False 0)). is_csync e" by simp
  have g: "length (replicate 54 (Csync False 0)) = unat (v_off (config eof_state)) + 51"
    by (simp add: eof_state_def osd_zero_def scenario_config_def)
  show ?thesis
    using next_height_clamped [OF a b, of eof_state 9 start_pulses "replicate 54 (Csync False 0)"]
      a b c r d e f g
    by blast
qed

text \<open>
  C7 as the spec states it fails for a display that is off: four double-height rows ask
  for 74 lines, the computed height is cut to 52, and \<open>display_height\<close> becomes 0, not 52.
\<close>

theorem display_off_height_not_52:
  "requested_height tall_display_off = 74
   \<and> MAX_DISPLAY_HEIGHT < requested_height tall_display_off
   \<and> next_height tall_display_off = 52
   \<and> display_height (frame_commit tall_display_off eof_state) = 0
   \<and> display_height (frame_commit tall_display_off eof_state) \<noteq> 52"
  by code_simp

text \<open>
  C8 at \<open>h_off = 2\<close>, the offset of the end-to-end scenario. \<^verbatim>\<open>slave_arr_update\<close> gives TIM2
  the reload \<open>40 - 1 = 39\<close> and TIM3 the reload \<open>40 - 49\<close>, which wraps to 65527: the
  output-enable timer does not fire before the pixel-stream timer, it fires 65488 ticks
  after it. (Lemma \<open>slave_arr_mod\<close> above gives the two reload values in 16-bit arithmetic
  for every offset, and lemma \<open>slave_arr_order\<close> the order the claim states for the offsets
  from 3 to 3276.)
\<close>

theorem slave_arr_h_off_2:
  "h_off (config (osd_zero scenario_config)) = 2
   \<and> tim2_arr (slave_arr_update (osd_zero scenario_config)) = 39
   \<and> tim3_arr (slave_arr_update (osd_zero scenario_config)) = 65527
   \<and> \<not> tim3_arr (slave_arr_update (osd_zero scenario_config))
        < tim2_arr (slave_arr_update (osd_zero scenario_config))"
  by (simp add: slave_arr_update_def osd_zero_def scenario_config_def)

text \<open>
  C9. Whatever the state, the vertical-sync handler puts the machine in VerticalBlank
  (\<open>hline = 0\<close>) and clears the slave-mode control register of the master timer. The handler
  takes no pulse-width measurement: it has no argument besides the state.
\<close>

theorem IRQ_vsync_forces_vbl:
  "hline (IRQ_vsync s) = HLINE_VBL \<and> hline (IRQ_vsync s) = 0 \<and> tim1_smcr (IRQ_vsync s) = 0"
  by (simp add: IRQ_vsync_def HLINE_VBL_def)

text \<open>
  C10. The bounded wait leaves its loop early only when \<open>hline < v_off - 3\<close>. With
  \<open>v_off \<le> 2\<close> that test is false in EndOfFrame (\<open>hline = -1\<close>), and since \<open>hline\<close> is never
  below -1 it is false at every iteration: the loop runs its five iterations, each with a
  delay of one millisecond, whatever the handlers do meanwhile.
\<close>

theorem wait_full_when_v_off_small:
  assumes "v_off cfg \<le> 2" and "\<forall>i < 5. HLINE_EOF \<le> obs i"
  shows "\<not> wait_break cfg HLINE_EOF \<and> display_wait cfg obs 0 = 5"
proof -
  have v: "uint (v_off cfg) \<le> 2"
    using assms(1) by (simp add: word_le_def)
  then have "\<forall>j < 5. \<not> wait_break cfg (obs j)"
    using assms(2) wait_break_small_voff by blast
  then show ?thesis
    using display_wait_full [of 0 cfg obs] wait_break_small_voff [OF v, of HLINE_EOF] by simp
qed

theorem wait_full_when_v_off_small_witness:
  "v_off (scenario_config\<lparr>v_off := 2\<rparr>) \<le> 2
   \<and> \<not> wait_break (scenario_config\<lparr>v_off := 2\<rparr>) HLINE_EOF
   \<and> display_wait (scenario_config\<lparr>v_off := 2\<rparr>) (\<lambda>i. HLINE_EOF) 0 = 5"
proof -
  have a: "v_off (scenario_config\<lparr>v_off := 2\<rparr>) \<le> 2" by simp
  have b: "\<forall>i < 5. HLINE_EOF \<le> (\<lambda>i. HLINE_EOF) i" by simp
  show ?thesis
    using wait_full_when_v_off_small [OF a b] a by blast
qed

end
